theory Spec2Isabelle
  imports Complex_Main
begin

section \<open>JavaScript values\<close>

text \<open>
  The controllers read request bodies and provider replies that are parsed JSON, typed
  \<^verbatim>\<open>any\<close> at run time. A value is modelled as it stands after parsing. An object is the
  list of its own members (where a key is repeated the first entry is the one read). A
  number is the finite value JSON can carry. An absent member reads as \<open>JUndefined\<close>.
  A string is a \<^typ>\<open>string\<close>, one \<^typ>\<open>char\<close> for each code unit.
\<close>

datatype jsval =
    JUndefined
  | JNull
  | JBool bool
  | JNum rat
  | JStr string
  | JArr "jsval list"
  | JObj "(string \<times> jsval) list"

text \<open>
  What a handler can throw or hand to \<^verbatim>\<open>next(err)\<close>: the repository's
  \<^verbatim>\<open>CustomError(message, status)\<close>, the runtime's \<^verbatim>\<open>TypeError\<close>, and any other
  \<^verbatim>\<open>Error(message)\<close> (a failed network call, a failed disk operation).
\<close>

datatype error =
    CustomError string nat
  | TypeError string
  | Error string

text \<open>Truthiness, as \<^verbatim>\<open>if (v)\<close> and \<^verbatim>\<open>!v\<close> test it.\<close>

fun truthy :: "jsval \<Rightarrow> bool" where
  "truthy JUndefined = False"
| "truthy JNull = False"
| "truthy (JBool b) = b"
| "truthy (JNum n) = (n \<noteq> 0)"
| "truthy (JStr s) = (s \<noteq> [])"
| "truthy (JArr xs) = True"
| "truthy (JObj kvs) = True"

definition nullish :: "jsval \<Rightarrow> bool" where
  "nullish v = (v = JUndefined \<or> v = JNull)"

fun typeof :: "jsval \<Rightarrow> string" where
  "typeof JUndefined = ''undefined''"
| "typeof JNull = ''object''"
| "typeof (JBool b) = ''boolean''"
| "typeof (JNum n) = ''number''"
| "typeof (JStr s) = ''string''"
| "typeof (JArr xs) = ''object''"
| "typeof (JObj kvs) = ''object''"

text \<open>
  Reading the member \<open>k\<close> of a value that is neither \<^verbatim>\<open>undefined\<close> nor \<^verbatim>\<open>null\<close>.
  Arrays and strings have a \<^verbatim>\<open>length\<close>; a primitive has no other member the
  controllers read. Inherited (prototype) members are not modelled: none of the keys
  read by the controllers is one.
\<close>

fun get :: "jsval \<Rightarrow> string \<Rightarrow> jsval" where
  "get (JObj kvs) k = (case map_of kvs k of None \<Rightarrow> JUndefined | Some v \<Rightarrow> v)"
| "get (JArr xs) k = (if k = ''length'' then JNum (of_nat (length xs)) else JUndefined)"
| "get (JStr s) k = (if k = ''length'' then JNum (of_nat (length s)) else JUndefined)"
| "get v k = JUndefined"

text \<open>The element read \<^verbatim>\<open>v[0]\<close> of a value that is neither \<^verbatim>\<open>undefined\<close> nor \<^verbatim>\<open>null\<close>.\<close>

fun elem0 :: "jsval \<Rightarrow> jsval" where
  "elem0 (JArr xs) = (case xs of [] \<Rightarrow> JUndefined | x # _ \<Rightarrow> x)"
| "elem0 (JStr s) = (case s of [] \<Rightarrow> JUndefined | c # _ \<Rightarrow> JStr [c])"
| "elem0 (JObj kvs) = (case map_of kvs ''0'' of None \<Rightarrow> JUndefined | Some v \<Rightarrow> v)"
| "elem0 v = JUndefined"

text \<open>\<^verbatim>\<open>v.k\<close> throws a TypeError on \<^verbatim>\<open>undefined\<close> and \<^verbatim>\<open>null\<close>.\<close>

definition member :: "jsval \<Rightarrow> string \<Rightarrow> error + jsval" where
  "member v k =
     (if nullish v then Inl (TypeError (''Cannot read properties of '' @
         (if v = JNull then ''null'' else ''undefined'') @ '' (reading '' @ k @ '')''))
      else Inr (get v k))"

text \<open>Optional chaining: \<^verbatim>\<open>v?.k\<close> and \<^verbatim>\<open>v?.[0]\<close>.\<close>

definition opt_get :: "jsval \<Rightarrow> string \<Rightarrow> jsval" where
  "opt_get v k = (if nullish v then JUndefined else get v k)"

definition opt_elem0 :: "jsval \<Rightarrow> jsval" where
  "opt_elem0 v = (if nullish v then JUndefined else elem0 v)"

text \<open>Nullish coalescing \<^verbatim>\<open>a ?? b\<close>, and the default of a destructured member
  or of a parameter (\<^verbatim>\<open>{ k = d }\<close>, \<^verbatim>\<open>(p = d)\<close>), which applies to \<^verbatim>\<open>undefined\<close> only.\<close>

definition nullish_or :: "jsval \<Rightarrow> jsval \<Rightarrow> jsval" where
  "nullish_or a b = (if nullish a then b else a)"

definition dflt :: "jsval \<Rightarrow> jsval \<Rightarrow> jsval" where
  "dflt v d = (if v = JUndefined then d else v)"

text \<open>
  Conversion to a string, as \<^verbatim>\<open>String(v)\<close>, a template literal and \<^verbatim>\<open>+\<close> with a
  string perform it. A string is left as it is; what the runtime prints for any other
  value is the parameter \<open>S\<close>.
\<close>

definition to_str :: "(jsval \<Rightarrow> string) \<Rightarrow> jsval \<Rightarrow> string" where
  "to_str S v = (case v of JStr s \<Rightarrow> s | _ \<Rightarrow> S v)"

text \<open>\<^verbatim>\<open>parts.join(sep)\<close> on an array of strings.\<close>

fun join :: "string \<Rightarrow> string list \<Rightarrow> string" where
  "join sep [] = []"
| "join sep [x] = x"
| "join sep (x # y # ys) = x @ sep @ join sep (y # ys)"

text \<open>A non-negative integer printed in decimal, as a template literal prints it.\<close>

fun decimal :: "nat \<Rightarrow> string" where
  "decimal n =
     (if n < 10 then [''0123456789'' ! n]
      else decimal (n div 10) @ [''0123456789'' ! (n mod 10)])"

declare decimal.simps [simp del]

definition dquote :: string where
  "dquote = [CHR 0x22]"

section \<open>The image prompt\<close>

text \<open>
  \<^verbatim>\<open>makePrompt(topic, splashText = '', style = '')\<close>: the parts are pushed in the order of
  the source and joined with one space.
\<close>

definition makePrompt :: "(jsval \<Rightarrow> string) \<Rightarrow> jsval \<Rightarrow> jsval \<Rightarrow> jsval \<Rightarrow> string" where
  "makePrompt S topic splashText0 style0 =
     (let splashText = dflt splashText0 (JStr '''');
          style = dflt style0 (JStr '''');
          parts1 = [''YouTube thumbnail for a video about '' @ to_str S topic @ ''.''];
          parts2 = (if truthy style then parts1 @ [to_str S style @ ''.''] else parts1);
          parts3 = (if truthy splashText
                    then parts2 @ [''Include large bold splash text: '' @ dquote @
                                   to_str S splashText @ dquote @ ''.'']
                    else parts2);
          parts4 = parts3 @
            [''High contrast, bold composition, clear central subject, readable text, vibrant colors.''];
          parts5 = parts4 @ [''Composition suited for a 16:9 YouTube thumbnail.'']
      in join '' '' parts5)"

text \<open>An optional string argument: absent is \<^verbatim>\<open>undefined\<close>.\<close>

fun optional :: "string option \<Rightarrow> jsval" where
  "optional None = JUndefined"
| "optional (Some s) = JStr s"

section \<open>Environment, response-scoped context and the outside world\<close>

text \<open>
  The arguments of \<^verbatim>\<open>client.images.generate\<close> and the JSON body of a request of
  \<^verbatim>\<open>fetchData\<close> are kept as the object the source builds, before it is serialised.
\<close>

record request_init =
  http_method :: string
  http_headers :: "(string \<times> string) list"
  http_body :: jsval

text \<open>
  What \<^verbatim>\<open>https.get\<close> does with a URL: it throws at once (a URL that is not an
  \<^verbatim>\<open>https:\<close> one), the request emits \<^verbatim>\<open>error\<close>, or a response arrives with its
  status code (which may be undefined) and its body. The write stream is taken to have
  opened its file before any of them, and the body to be piped to its end.
\<close>

datatype download =
    GetThrows error
  | RequestError error
  | Response "nat option" string

text \<open>One outbound call, with what came back.\<close>

datatype exchange =
    SdkGenerate string jsval "error + jsval"
  | Fetch string request_init "error + jsval"
  | HttpsGet string download

text \<open>
  Everything a handler reads from outside: the two environment variables, the vendor SDK
  and \<^verbatim>\<open>fetchData\<close> (both outside the controllers) as functions from the request to the
  reply or the exception, the clock, the working directory, the disk operations that can
  fail, \<^verbatim>\<open>sharp\<close>, and the runtime's \<^verbatim>\<open>String\<close> and base64 decoder.
\<close>

record env =
  OPENAI_API_KEY :: "string option"
  OPENAI_API_URL :: "string option"
  images_generate :: "string \<Rightarrow> jsval \<Rightarrow> error + jsval"
  fetchData :: "string \<Rightarrow> request_init \<Rightarrow> error + jsval"
  https_get :: "string \<Rightarrow> download"
  now :: nat
  cwd :: string
  mkdir_error :: "error option"
  writeFile_error :: "error option"
  unlink_ok :: bool
  sharp_installed :: bool
  resize_png :: "string \<Rightarrow> error + string"
  js_String :: "jsval \<Rightarrow> string"
  base64_decode :: "string \<Rightarrow> string"

text \<open>\<^verbatim>\<open>res.locals\<close>: a member that was never set is \<open>JUndefined\<close>. The member
  \<^verbatim>\<open>file\<close> is the field \<open>filename\<close> (\<open>file\<close> is a keyword of Isabelle).\<close>

record locals =
  url :: jsval
  b64 :: jsval
  filename :: jsval
  thumb :: jsval

definition empty_locals :: locals where
  "empty_locals = \<lparr>url = JUndefined, b64 = JUndefined, filename = JUndefined, thumb = JUndefined\<rparr>"

text \<open>The disk (files by path, with their bytes; directories) and the log of outbound calls.\<close>

record world =
  files :: "string \<rightharpoonup> string"
  dirs :: "string set"
  net :: "exchange list"

text \<open>
  How a handler ends: \<^verbatim>\<open>next()\<close>, \<^verbatim>\<open>next(err)\<close> or \<^verbatim>\<open>res.json(body)\<close> (the status is
  Express's default, 200; a member that is \<^verbatim>\<open>undefined\<close> is left out of the JSON sent).
\<close>

datatype outcome =
    Next
  | NextErr error
  | Json jsval

record result =
  out :: outcome
  loc :: locals
  wld :: world

text \<open>An environment variable is set when it is a non-empty string.\<close>

definition configured :: "string option \<Rightarrow> bool" where
  "configured v = (case v of None \<Rightarrow> False | Some s \<Rightarrow> s \<noteq> [])"

definition env_value :: "string option \<Rightarrow> string" where
  "env_value v = (case v of None \<Rightarrow> [] | Some s \<Rightarrow> s)"

text \<open>\<^verbatim>\<open>s.replace(/\/$/, '')\<close>: one slash at the very end is removed.\<close>

definition strip_slash :: "string \<Rightarrow> string" where
  "strip_slash s = (if s \<noteq> [] \<and> last s = CHR ''/'' then butlast s else s)"

definition body_or_empty :: "jsval \<Rightarrow> jsval" where
  "body_or_empty body = (if truthy body then body else JObj [])"

text \<open>The headers both controllers send: the bearer token only when a key is set.\<close>

definition headers :: "env \<Rightarrow> (string \<times> string) list" where
  "headers E =
     [(''Content-Type'', ''application/json'')] @
     (if configured (OPENAI_API_KEY E)
      then [(''Authorization'', ''Bearer '' @ env_value (OPENAI_API_KEY E))] else [])"

section \<open>The image pipeline\<close>

subsection \<open>generateImage\<close>

definition generateImage :: "env \<Rightarrow> jsval \<Rightarrow> locals \<Rightarrow> world \<Rightarrow> result" where
  "generateImage E body l w =
     (let b = body_or_empty body;
          topic = get b ''topic'';
          splashText = dflt (get b ''splashText'') (JStr '''');
          style = dflt (get b ''style'') (JStr '''');
          size = dflt (get b ''size'') (JStr ''1024x1024'');
          model = dflt (get b ''model'') (JStr ''dall-e-2'')
      in
      if \<not> truthy topic \<or> typeof topic \<noteq> ''string'' then
        \<lparr>out = NextErr (CustomError ''topic (string) is required in request body'' 400),
         loc = l, wld = w\<rparr>
      else
        let prompt = makePrompt (js_String E) topic splashText style in
        if configured (OPENAI_API_KEY E) then
          (let apiKey = env_value (OPENAI_API_KEY E);
               args = JObj [(''model'', model), (''prompt'', JStr prompt), (''size'', size)];
               reply = images_generate E apiKey args;
               w1 = w\<lparr>net := net w @ [SdkGenerate apiKey args reply]\<rparr>
           in case reply of
                Inl e \<Rightarrow> \<lparr>out = NextErr e, loc = l, wld = w1\<rparr>
              | Inr response \<Rightarrow>
                  (let item = opt_elem0 (opt_get response ''data'') in
                   if \<not> truthy item then
                     \<lparr>out = NextErr (CustomError ''Image not generated (SDK returned no data)'' 500),
                      loc = l, wld = w1\<rparr>
                   else if truthy (get item ''url'') then
                     \<lparr>out = Next, loc = l\<lparr>url := get item ''url''\<rparr>, wld = w1\<rparr>
                   else if truthy (get item ''b64_json'') then
                     \<lparr>out = Next, loc = l\<lparr>b64 := get item ''b64_json''\<rparr>, wld = w1\<rparr>
                   else
                     \<lparr>out = NextErr (CustomError ''Image not generated (no url or b64_json)'' 500),
                      loc = l, wld = w1\<rparr>))
        else if configured (OPENAI_API_URL E) then
          (let baseUrl = strip_slash (env_value (OPENAI_API_URL E));
               target = baseUrl @ ''/v1/images/generations'';
               payload = JObj [(''model'', model), (''prompt'', JStr prompt), (''size'', size)];
               init = \<lparr>http_method = ''POST'', http_headers = headers E, http_body = payload\<rparr>;
               reply = fetchData E target init;
               w1 = w\<lparr>net := net w @ [Fetch target init reply]\<rparr>
           in case reply of
                Inl e \<Rightarrow> \<lparr>out = NextErr e, loc = l, wld = w1\<rparr>
              | Inr apiResponse \<Rightarrow>
                  (let item = opt_elem0 (opt_get apiResponse ''data'') in
                   if \<not> truthy item then
                     \<lparr>out = NextErr (CustomError ''Image not generated (proxy returned no data)'' 500),
                      loc = l, wld = w1\<rparr>
                   else if truthy (get item ''url'') then
                     \<lparr>out = Next, loc = l\<lparr>url := get item ''url''\<rparr>, wld = w1\<rparr>
                   else if truthy (get item ''b64_json'') then
                     \<lparr>out = Next, loc = l\<lparr>b64 := get item ''b64_json''\<rparr>, wld = w1\<rparr>
                   else
                     \<lparr>out = NextErr (CustomError
                        ''Image not generated (proxy returned no url or b64_json)'' 500),
                      loc = l, wld = w1\<rparr>))
        else
          \<lparr>out = NextErr (CustomError ''No OPENAI_API_KEY or OPENAI_API_URL configured'' 500),
           loc = l, wld = w\<rparr>)"

subsection \<open>saveImage\<close>

text \<open>
  The character class \<^verbatim>\<open>[a-z0-9-_]\<close> under the flag \<^verbatim>\<open>i\<close>: a letter of either case, a
  digit, a dash or an underscore. \<^verbatim>\<open>replace\<close> with the flag \<^verbatim>\<open>g\<close> turns every other
  code unit into an underscore.
\<close>

definition in_class :: "char \<Rightarrow> bool" where
  "in_class c =
     (let n = (of_char c :: nat) in
        (97 \<le> n \<and> n \<le> 122) \<or> (65 \<le> n \<and> n \<le> 90) \<or> (48 \<le> n \<and> n \<le> 57)
        \<or> c = CHR ''-'' \<or> c = CHR ''_'')"

definition replace_outside_class :: "string \<Rightarrow> string" where
  "replace_outside_class s = map (\<lambda>c. if in_class c then c else CHR ''_'') s"

text \<open>
  \<^verbatim>\<open>toLowerCase\<close> on the code units below 128, which is all it is ever given here: its
  only argument is the string \<^verbatim>\<open>replace\<close> has returned.
\<close>

definition toLowerCase :: "string \<Rightarrow> string" where
  "toLowerCase s =
     map (\<lambda>c. let n = (of_char c :: nat) in if 65 \<le> n \<and> n \<le> 90 then char_of (n + 32) else c) s"

definition baseName :: "string \<Rightarrow> string" where
  "baseName topic = toLowerCase (replace_outside_class topic)"

definition uploadsDir :: "env \<Rightarrow> string" where
  "uploadsDir E = cwd E @ ''/uploads''"

definition imageName :: "env \<Rightarrow> string \<Rightarrow> string" where
  "imageName E topic = baseName topic @ ''_'' @ decimal (now E) @ ''.png''"

text \<open>\<^verbatim>\<open>path.join(dir, name)\<close> for a name that has no separator in it.\<close>

definition path_join :: "string \<Rightarrow> string \<Rightarrow> string" where
  "path_join dir name = dir @ ''/'' @ name"

definition existsSync :: "world \<Rightarrow> string \<Rightarrow> bool" where
  "existsSync w p = (p \<in> dirs w \<or> files w p \<noteq> None)"

text \<open>
  The first statements of \<^verbatim>\<open>saveImage\<close>: the directory is made when it does not exist,
  and \<^verbatim>\<open>mkdirSync\<close> may throw.
\<close>

definition ensure_dir :: "env \<Rightarrow> world \<Rightarrow> string \<Rightarrow> error + world" where
  "ensure_dir E w d =
     (if existsSync w d then Inr w
      else case mkdir_error E of
             Some e \<Rightarrow> Inl e
           | None \<Rightarrow> Inr (w\<lparr>dirs := insert d (dirs w)\<rparr>))"

definition saveImage :: "env \<Rightarrow> jsval \<Rightarrow> locals \<Rightarrow> world \<Rightarrow> result" where
  "saveImage E body l w =
     (case ensure_dir E w (uploadsDir E) of
        Inl e \<Rightarrow> \<lparr>out = NextErr e, loc = l, wld = w\<rparr>
      | Inr w0 \<Rightarrow>
       (let topic = (if truthy (opt_get body ''topic'') then opt_get body ''topic''
                     else JStr ''image'')
        in case topic of
             JStr t \<Rightarrow>
               (let imagePath = path_join (uploadsDir E) (imageName E t) in
                if truthy (b64 l) then
                  (let buffer = base64_decode E (to_str (js_String E) (b64 l)) in
                   case writeFile_error E of
                     Some e \<Rightarrow> \<lparr>out = NextErr e, loc = l, wld = w0\<rparr>
                   | None \<Rightarrow>
                       \<lparr>out = Next, loc = l\<lparr>filename := JStr (imageName E t)\<rparr>,
                        wld = w0\<lparr>files := (files w0)(imagePath \<mapsto> buffer)\<rparr>\<rparr>)
                else if \<not> truthy (url l) then
                  \<lparr>out = NextErr (CustomError ''No image URL or data to save'' 500),
                   loc = l, wld = w0\<rparr>
                else
                  (let imageUrl = to_str (js_String E) (url l);
                       w1 = w0\<lparr>files := (files w0)(imagePath \<mapsto> [])\<rparr>;
                       event = https_get E imageUrl;
                       w2 = w1\<lparr>net := net w1 @ [HttpsGet imageUrl event]\<rparr>
                   in case event of
                        GetThrows e \<Rightarrow> \<lparr>out = NextErr e, loc = l, wld = w2\<rparr>
                      | RequestError e \<Rightarrow>
                          \<lparr>out = NextErr e, loc = l,
                           wld = (if unlink_ok E then w2\<lparr>files := (files w2)(imagePath := None)\<rparr>
                                  else w2)\<rparr>
                      | Response statusCode bytes \<Rightarrow>
                          (case statusCode of
                             Some st \<Rightarrow>
                               if 400 \<le> st then
                                 \<lparr>out = NextErr (Error (''Failed to download image, status '' @
                                                         decimal st)),
                                  loc = l, wld = w2\<rparr>
                               else
                                 \<lparr>out = Next, loc = l\<lparr>filename := JStr (imageName E t)\<rparr>,
                                  wld = w2\<lparr>files := (files w2)(imagePath \<mapsto> bytes)\<rparr>\<rparr>
                           | None \<Rightarrow>
                               \<lparr>out = Next, loc = l\<lparr>filename := JStr (imageName E t)\<rparr>,
                                wld = w2\<lparr>files := (files w2)(imagePath \<mapsto> bytes)\<rparr>\<rparr>)))
           | _ \<Rightarrow>
               \<lparr>out = NextErr (TypeError ''(req.body?.topic || image).replace is not a function''),
                loc = l, wld = w0\<rparr>))"

subsection \<open>makeThumbnail, respondWithImage and the route\<close>

text \<open>
  \<^verbatim>\<open>sharp(filePath).resize(320, 180).png().toFile(thumbPath)\<close> reads the stored file,
  which throws when it is missing, and re-encodes it (\<open>resize_png\<close>, which throws on
  bytes that are no image or when the output cannot be written). Every exception of the
  handler ends in its \<^verbatim>\<open>catch\<close>, which logs it and calls \<^verbatim>\<open>next()\<close>. A name that is
  not a string makes \<^verbatim>\<open>path.join\<close> throw.
\<close>

definition makeThumbnail :: "env \<Rightarrow> locals \<Rightarrow> world \<Rightarrow> result" where
  "makeThumbnail E l w =
     (let fileName = filename l in
      if \<not> truthy fileName then \<lparr>out = Next, loc = l, wld = w\<rparr>
      else case fileName of
             JStr f \<Rightarrow>
               (let filePath = path_join (uploadsDir E) f;
                    thumbName = ''thumb_'' @ f;
                    thumbPath = path_join (uploadsDir E) thumbName
                in if \<not> sharp_installed E then \<lparr>out = Next, loc = l, wld = w\<rparr>
                   else case files w filePath of
                          None \<Rightarrow> \<lparr>out = Next, loc = l, wld = w\<rparr>
                        | Some bytes \<Rightarrow>
                            (case resize_png E bytes of
                               Inl e \<Rightarrow> \<lparr>out = Next, loc = l, wld = w\<rparr>
                             | Inr small \<Rightarrow>
                                 \<lparr>out = Next, loc = l\<lparr>thumb := JStr thumbName\<rparr>,
                                  wld = w\<lparr>files := (files w)(thumbPath \<mapsto> small)\<rparr>\<rparr>))
           | _ \<Rightarrow> \<lparr>out = Next, loc = l, wld = w\<rparr>)"

text \<open>Whether the re-encoding of the stored file throws.\<close>

definition sharp_throws :: "env \<Rightarrow> locals \<Rightarrow> world \<Rightarrow> bool" where
  "sharp_throws E l w =
     (case filename l of
        JStr f \<Rightarrow>
          (case files w (path_join (uploadsDir E) f) of
             None \<Rightarrow> True
           | Some bytes \<Rightarrow> (case resize_png E bytes of Inl e \<Rightarrow> True | Inr small \<Rightarrow> False))
      | _ \<Rightarrow> True)"

definition respondWithImage :: "locals \<Rightarrow> world \<Rightarrow> result" where
  "respondWithImage l w =
     \<lparr>out = Json (JObj [(''file'', filename l), (''thumb'', thumb l), (''url'', url l)]),
      loc = l, wld = w\<rparr>"

text \<open>
  The route \<^verbatim>\<open>POST /api/v1/images\<close> after its validators: the four handlers in order,
  on the locals of a new response; \<^verbatim>\<open>next(err)\<close> leaves the chain for the error handler.
\<close>

definition imagePipeline :: "env \<Rightarrow> jsval \<Rightarrow> world \<Rightarrow> result" where
  "imagePipeline E body w =
     (let r1 = generateImage E body empty_locals w in
      if out r1 \<noteq> Next then r1
      else let r2 = saveImage E body (loc r1) (wld r1) in
           if out r2 \<noteq> Next then r2
           else let r3 = makeThumbnail E (loc r2) (wld r2) in
                if out r3 \<noteq> Next then r3
                else respondWithImage (loc r3) (wld r3))"

section \<open>The comment pipeline\<close>

text \<open>
  The request the handler builds, under the names of the source: the system message from
  the responder's name and persona and the tone, the user message, and the payload.
\<close>

definition systemMessage :: "(jsval \<Rightarrow> string) \<Rightarrow> jsval \<Rightarrow> jsval \<Rightarrow> jsval \<Rightarrow> string" where
  "systemMessage S name persona style =
     (let systemParts1 = (if truthy name then [''You are '' @ to_str S name @ ''.''] else []);
          systemParts2 = (if truthy persona then systemParts1 @ [to_str S persona @ ''.'']
                          else systemParts1 @ [''You are a helpful assistant.'']);
          systemParts3 = systemParts2 @ [''Adopt this tone: '' @ to_str S style @ ''.''];
          systemParts4 = systemParts3 @
            [''Keep replies concise (1-2 short sentences), suitable for a YouTube comment. Do not include meta commentary about being an AI.'']
      in join '' '' systemParts4)"

definition userMessage :: "(jsval \<Rightarrow> string) \<Rightarrow> jsval \<Rightarrow> jsval \<Rightarrow> string" where
  "userMessage S txt style =
     ''A user commented: '' @ dquote @ to_str S txt @ dquote @
     ''. Write a short reply (1-2 sentences) in the requested tone ('' @ to_str S style @ '').''"

definition requestPayload :: "jsval \<Rightarrow> string \<Rightarrow> string \<Rightarrow> jsval \<Rightarrow> jsval \<Rightarrow> jsval" where
  "requestPayload model sysMsg usrMsg temperature max_tokens =
     JObj [(''model'', model),
           (''messages'', JArr
              [JObj [(''role'', JStr ''system''), (''content'', JStr sysMsg)],
               JObj [(''role'', JStr ''user''), (''content'', JStr usrMsg)]]),
           (''temperature'', temperature),
           (''max_tokens'', max_tokens)]"

definition commentPost :: "env \<Rightarrow> jsval \<Rightarrow> world \<Rightarrow> outcome \<times> world" where
  "commentPost E body w =
     (let b = body_or_empty body;
          txt = get b ''text'';
          style = dflt (get b ''style'') (JStr ''nice'');
          responder = dflt (get b ''responder'')
            (JObj [(''name'', JStr ''Responder''), (''persona'', JStr ''helpful and friendly'')]);
          temperature = dflt (get b ''temperature'') (JNum (7 / 10));
          max_tokens = dflt (get b ''max_tokens'') (JNum 150);
          model = dflt (get b ''model'') (JStr ''gpt-4o-mini'')
      in
      if \<not> truthy txt \<or> typeof txt \<noteq> ''string'' then
        (NextErr (CustomError ''No text provided'' 400), w)
      else if \<not> configured (OPENAI_API_URL E) then
        (NextErr (CustomError ''No API url found'' 500), w)
      else
        case member responder ''name'' of
          Inl e \<Rightarrow> (NextErr e, w)
        | Inr name \<Rightarrow>
          (case member responder ''persona'' of
             Inl e \<Rightarrow> (NextErr e, w)
           | Inr persona \<Rightarrow>
             (let init = \<lparr>http_method = ''POST'', http_headers = headers E,
                          http_body = requestPayload model
                            (systemMessage (js_String E) name persona style)
                            (userMessage (js_String E) txt style) temperature max_tokens\<rparr>;
                  target = strip_slash (env_value (OPENAI_API_URL E)) @ ''/v1/chat/completions'';
                  reply = fetchData E target init;
                  w1 = w\<lparr>net := net w @ [Fetch target init reply]\<rparr>
              in case reply of
                   Inl e \<Rightarrow> (NextErr e, w1)
                 | Inr completion \<Rightarrow>
                     if \<not> truthy (opt_get (opt_get completion ''choices'') ''length'') then
                       (NextErr (CustomError ''No completion choices returned'' 500), w1)
                     else
                       (let choiceAny = elem0 (get completion ''choices'');
                            answer =
                              nullish_or (opt_get (opt_get choiceAny ''message'') ''content'')
                                (nullish_or
                                   (if typeof (opt_get choiceAny ''text'') = ''string''
                                    then get choiceAny ''text'' else JStr '''')
                                   (JStr ''''))
                        in (Json (JObj [(''response'', answer), (''raw'', completion)]), w1)))))"

section \<open>Notions used to state the theorems\<close>

text \<open>
  The object both generation strategies send (\<^verbatim>\<open>{ model, prompt, size }\<close>), as a
  function of the request.
\<close>

definition image_payload :: "env \<Rightarrow> jsval \<Rightarrow> jsval" where
  "image_payload E body =
     (let b = body_or_empty body in
      JObj [(''model'', dflt (get b ''model'') (JStr ''dall-e-2'')),
            (''prompt'', JStr (makePrompt (js_String E) (get b ''topic'')
                                (dflt (get b ''splashText'') (JStr ''''))
                                (dflt (get b ''style'') (JStr '''')))),
            (''size'', dflt (get b ''size'') (JStr ''1024x1024''))])"

text \<open>
  What either branch of \<^verbatim>\<open>generateImage\<close> does once the provider has replied, with the
  two messages of the branch; \<open>generateImage\<close> is proved to be this on each branch.
\<close>

definition item_stage :: "string \<Rightarrow> string \<Rightarrow> locals \<Rightarrow> world \<Rightarrow> error + jsval \<Rightarrow> result" where
  "item_stage noData noImage l w1 reply =
     (case reply of
        Inl e \<Rightarrow> \<lparr>out = NextErr e, loc = l, wld = w1\<rparr>
      | Inr response \<Rightarrow>
          (let item = opt_elem0 (opt_get response ''data'') in
           if \<not> truthy item then \<lparr>out = NextErr (CustomError noData 500), loc = l, wld = w1\<rparr>
           else if truthy (get item ''url'') then
             \<lparr>out = Next, loc = l\<lparr>url := get item ''url''\<rparr>, wld = w1\<rparr>
           else if truthy (get item ''b64_json'') then
             \<lparr>out = Next, loc = l\<lparr>b64 := get item ''b64_json''\<rparr>, wld = w1\<rparr>
           else \<lparr>out = NextErr (CustomError noImage 500), loc = l, wld = w1\<rparr>))"

text \<open>The provider call \<open>c\<close> came back with the response \<open>resp\<close>.\<close>

fun answered :: "exchange \<Rightarrow> jsval \<Rightarrow> bool" where
  "answered (SdkGenerate k a r) resp = (r = Inr resp)"
| "answered (Fetch u i r) resp = (r = Inr resp)"
| "answered (HttpsGet u d) resp = False"

text \<open>A lower-case letter, a digit, a dash or an underscore.\<close>

definition token_char :: "char \<Rightarrow> bool" where
  "token_char c =
     (let n = (of_char c :: nat) in
        (97 \<le> n \<and> n \<le> 122) \<or> (48 \<le> n \<and> n \<le> 57) \<or> c = CHR ''-'' \<or> c = CHR ''_'')"

section \<open>Concrete inputs\<close>

text \<open>
  A configuration with the proxy URL only, a provider that answers every call with one
  image item carrying a URL and every chat request with one choice, a download that
  succeeds, and a disk with no uploads directory yet. The theorems below are evaluated on
  it and on variations of it.
\<close>

definition image_reply :: jsval where
  "image_reply = JObj [(''data'', JArr [JObj [(''url'', JStr ''https://cdn.example/img.png'')]])]"

definition chat_reply :: jsval where
  "chat_reply =
     JObj [(''choices'',
            JArr [JObj [(''message'',
                        JObj [(''role'', JStr ''assistant''), (''content'', JStr ''Thanks!'')])]])]"

definition env0 :: env where
  "env0 =
     \<lparr>OPENAI_API_KEY = None,
      OPENAI_API_URL = Some ''http://localhost:3000/'',
      images_generate = (\<lambda>k a. Inr image_reply),
      fetchData = (\<lambda>u i. if u = ''http://localhost:3000/v1/chat/completions''
                            then Inr chat_reply else Inr image_reply),
      https_get = (\<lambda>u. Response (Some 200) ''PNG''),
      now = 1700000000000,
      cwd = ''/app'',
      mkdir_error = None,
      writeFile_error = None,
      unlink_ok = True,
      sharp_installed = True,
      resize_png = (\<lambda>bytes. Inr ''small''),
      js_String = (\<lambda>v. ''[object Object]''),
      base64_decode = (\<lambda>s. s)\<rparr>"

definition world0 :: world where
  "world0 = \<lparr>files = Map.empty, dirs = {}, net = []\<rparr>"

definition space_body :: jsval where
  "space_body = JObj [(''topic'', JStr ''Deep Space!'')]"

definition comment_body :: jsval where
  "comment_body = JObj [(''text'', JStr ''Great video!''), (''style'', JStr ''funny'')]"




section \<open>Shared lemmas\<close>

lemma string_of_truthy:
  "truthy v \<Longrightarrow> typeof v = ''string'' \<Longrightarrow> \<exists>t. v = JStr t \<and> t \<noteq> []"
  by (cases v) simp_all

lemma truthy_defined: "truthy v \<Longrightarrow> v \<noteq> JUndefined"
  by (cases v) simp_all

lemma gi_invalid:
  "\<not> truthy (get (body_or_empty body) ''topic'') \<or> typeof (get (body_or_empty body) ''topic'') \<noteq> ''string''
   \<Longrightarrow> generateImage E body l w =
       \<lparr>out = NextErr (CustomError ''topic (string) is required in request body'' 400), loc = l, wld = w\<rparr>"
  by (simp add: generateImage_def Let_def)

lemma gi_sdk:
  assumes "get (body_or_empty body) ''topic'' = JStr t" and "t \<noteq> []"
    and "configured (OPENAI_API_KEY E)"
  shows "generateImage E body l w =
     item_stage ''Image not generated (SDK returned no data)'' ''Image not generated (no url or b64_json)'' l
       (w\<lparr>net := net w @ [SdkGenerate (env_value (OPENAI_API_KEY E)) (image_payload E body)
           (images_generate E (env_value (OPENAI_API_KEY E)) (image_payload E body))]\<rparr>)
       (images_generate E (env_value (OPENAI_API_KEY E)) (image_payload E body))"
  using assms
  by (simp add: generateImage_def item_stage_def image_payload_def Let_def split: sum.splits)

lemma gi_proxy:
  assumes "get (body_or_empty body) ''topic'' = JStr t" and "t \<noteq> []"
    and "\<not> configured (OPENAI_API_KEY E)" and "configured (OPENAI_API_URL E)"
  shows "generateImage E body l w =
     item_stage ''Image not generated (proxy returned no data)''
       ''Image not generated (proxy returned no url or b64_json)'' l
       (w\<lparr>net := net w @
          [Fetch (strip_slash (env_value (OPENAI_API_URL E)) @ ''/v1/images/generations'')
             \<lparr>http_method = ''POST'', http_headers = headers E, http_body = image_payload E body\<rparr>
             (fetchData E (strip_slash (env_value (OPENAI_API_URL E)) @ ''/v1/images/generations'')
                \<lparr>http_method = ''POST'', http_headers = headers E, http_body = image_payload E body\<rparr>)]\<rparr>)
       (fetchData E (strip_slash (env_value (OPENAI_API_URL E)) @ ''/v1/images/generations'')
          \<lparr>http_method = ''POST'', http_headers = headers E, http_body = image_payload E body\<rparr>)"
  using assms
  by (simp add: generateImage_def item_stage_def image_payload_def Let_def split: sum.splits)

lemma gi_unconfigured:
  assumes "get (body_or_empty body) ''topic'' = JStr t" and "t \<noteq> []"
    and "\<not> configured (OPENAI_API_KEY E)" and "\<not> configured (OPENAI_API_URL E)"
  shows "generateImage E body l w =
     \<lparr>out = NextErr (CustomError ''No OPENAI_API_KEY or OPENAI_API_URL configured'' 500), loc = l, wld = w\<rparr>"
  using assms by (simp add: generateImage_def Let_def)

lemma item_stage_wld: "wld (item_stage a b l w1 reply) = w1"
  by (simp add: item_stage_def Let_def split: sum.splits)

lemma item_stage_Next:
  "out (item_stage a b l w1 reply) = Next \<longleftrightarrow>
     (\<exists>resp. reply = Inr resp \<and> truthy (opt_elem0 (opt_get resp ''data''))
        \<and> (truthy (get (opt_elem0 (opt_get resp ''data'')) ''url'')
             \<or> truthy (get (opt_elem0 (opt_get resp ''data'')) ''b64_json'')))"
  by (auto simp add: item_stage_def Let_def split: sum.splits)

lemma item_stage_url:
  "truthy (opt_elem0 (opt_get resp ''data'')) \<Longrightarrow>
   truthy (get (opt_elem0 (opt_get resp ''data'')) ''url'') \<Longrightarrow>
   item_stage a b l w1 (Inr resp) =
     \<lparr>out = Next, loc = l\<lparr>url := get (opt_elem0 (opt_get resp ''data'')) ''url''\<rparr>, wld = w1\<rparr>"
  by (simp add: item_stage_def Let_def)

lemma item_stage_b64:
  "truthy (opt_elem0 (opt_get resp ''data'')) \<Longrightarrow>
   \<not> truthy (get (opt_elem0 (opt_get resp ''data'')) ''url'') \<Longrightarrow>
   truthy (get (opt_elem0 (opt_get resp ''data'')) ''b64_json'') \<Longrightarrow>
   item_stage a b l w1 (Inr resp) =
     \<lparr>out = Next, loc = l\<lparr>b64 := get (opt_elem0 (opt_get resp ''data'')) ''b64_json''\<rparr>, wld = w1\<rparr>"
  by (simp add: item_stage_def Let_def)

lemma item_stage_neither:
  "truthy (opt_elem0 (opt_get resp ''data'')) \<Longrightarrow>
   \<not> truthy (get (opt_elem0 (opt_get resp ''data'')) ''url'') \<Longrightarrow>
   \<not> truthy (get (opt_elem0 (opt_get resp ''data'')) ''b64_json'') \<Longrightarrow>
   item_stage a b l w1 (Inr resp) = \<lparr>out = NextErr (CustomError b 500), loc = l, wld = w1\<rparr>"
  by (simp add: item_stage_def Let_def)

lemma item_stage_one_of:
  assumes "out (item_stage a b empty_locals w1 reply) = Next"
  shows "(url (loc (item_stage a b empty_locals w1 reply)) = JUndefined)
       \<noteq> (b64 (loc (item_stage a b empty_locals w1 reply)) = JUndefined)"
proof -
  from assms obtain resp where r: "reply = Inr resp"
    and i: "truthy (opt_elem0 (opt_get resp ''data''))"
    and d: "truthy (get (opt_elem0 (opt_get resp ''data'')) ''url'')
             \<or> truthy (get (opt_elem0 (opt_get resp ''data'')) ''b64_json'')"
    unfolding item_stage_Next by blast
  show ?thesis
  proof (cases "truthy (get (opt_elem0 (opt_get resp ''data'')) ''url'')")
    case True
    then show ?thesis
      using truthy_defined [OF True] by (simp add: r item_stage_url [OF i True] empty_locals_def)
  next
    case False
    with d have b: "truthy (get (opt_elem0 (opt_get resp ''data'')) ''b64_json'')" by simp
    show ?thesis
      using truthy_defined [OF b] by (simp add: r item_stage_b64 [OF i False b] empty_locals_def)
  qed
qed

text \<open>
  The four ways \<^verbatim>\<open>generateImage\<close> can go: the topic check fails, the SDK is called, the
  proxy is called, or nothing is configured.
\<close>

lemma generateImage_cases:
  obtains (invalid)
      "generateImage E body l w =
         \<lparr>out = NextErr (CustomError ''topic (string) is required in request body'' 400),
          loc = l, wld = w\<rparr>"
    | (called) c a b reply t where
      "generateImage E body l w = item_stage a b l (w\<lparr>net := net w @ [c]\<rparr>) reply"
      "\<And>resp. answered c resp \<longleftrightarrow> reply = Inr resp"
      "get (body_or_empty body) ''topic'' = JStr t" "t \<noteq> []"
    | (unconfigured)
      "generateImage E body l w =
         \<lparr>out = NextErr (CustomError ''No OPENAI_API_KEY or OPENAI_API_URL configured'' 500),
          loc = l, wld = w\<rparr>"
proof (cases "\<not> truthy (get (body_or_empty body) ''topic'')
              \<or> typeof (get (body_or_empty body) ''topic'') \<noteq> ''string''")
  case True
  then show ?thesis using invalid gi_invalid by blast
next
  case False
  then obtain t where t: "get (body_or_empty body) ''topic'' = JStr t" "t \<noteq> []"
    using string_of_truthy by blast
  show ?thesis
  proof (cases "configured (OPENAI_API_KEY E)")
    case True
    show ?thesis
      by (rule called [where c = "SdkGenerate (env_value (OPENAI_API_KEY E)) (image_payload E body)
           (images_generate E (env_value (OPENAI_API_KEY E)) (image_payload E body))" and t = t])
         (simp_all add: gi_sdk [OF t True] t)
  next
    case nokey: False
    show ?thesis
    proof (cases "configured (OPENAI_API_URL E)")
      case True
      show ?thesis
        by (rule called [where c = "Fetch (strip_slash (env_value (OPENAI_API_URL E)) @ ''/v1/images/generations'')
             \<lparr>http_method = ''POST'', http_headers = headers E, http_body = image_payload E body\<rparr>
             (fetchData E (strip_slash (env_value (OPENAI_API_URL E)) @ ''/v1/images/generations'')
                \<lparr>http_method = ''POST'', http_headers = headers E, http_body = image_payload E body\<rparr>)" and t = t])
           (simp_all add: gi_proxy [OF t nokey True] t)
    next
      case False
      then show ?thesis using unconfigured gi_unconfigured [OF t nokey False] by blast
    qed
  qed
qed

section \<open>Validation (C2)\<close>

text \<open>
  C2. A comment request whose \<^verbatim>\<open>text\<close> is absent or not a string ends in
  \<^verbatim>\<open>next(CustomError('No text provided', 400))\<close>, and an image request whose
  \<^verbatim>\<open>topic\<close> is absent or not a string ends in the 400 error of \<^verbatim>\<open>generateImage\<close>;
  in both cases the world is left as it was, so the log of outbound calls has no new
  entry: the provider is not called.
\<close>

theorem missing_field_is_400_without_call:
  "(get (body_or_empty body) ''text'' = JUndefined
      \<or> typeof (get (body_or_empty body) ''text'') \<noteq> ''string''
    \<longrightarrow> fst (commentPost E body w) = NextErr (CustomError ''No text provided'' 400)
        \<and> snd (commentPost E body w) = w
        \<and> net (snd (commentPost E body w)) = net w)
   \<and> (get (body_or_empty body) ''topic'' = JUndefined
      \<or> typeof (get (body_or_empty body) ''topic'') \<noteq> ''string''
    \<longrightarrow> out (generateImage E body l w) =
          NextErr (CustomError ''topic (string) is required in request body'' 400)
        \<and> wld (generateImage E body l w) = w
        \<and> net (wld (generateImage E body l w)) = net w)"
proof (intro conjI impI)
  assume "get (body_or_empty body) ''text'' = JUndefined
            \<or> typeof (get (body_or_empty body) ''text'') \<noteq> ''string''"
  then have "typeof (get (body_or_empty body) ''text'') \<noteq> ''string''" by auto
  then have c: "commentPost E body w = (NextErr (CustomError ''No text provided'' 400), w)"
    by (simp add: commentPost_def Let_def)
  show "fst (commentPost E body w) = NextErr (CustomError ''No text provided'' 400)"
    and "snd (commentPost E body w) = w"
    and "net (snd (commentPost E body w)) = net w"
    by (simp_all add: c)
next
  assume "get (body_or_empty body) ''topic'' = JUndefined
            \<or> typeof (get (body_or_empty body) ''topic'') \<noteq> ''string''"
  then have "typeof (get (body_or_empty body) ''topic'') \<noteq> ''string''" by auto
  then have g: "generateImage E body l w =
      \<lparr>out = NextErr (CustomError ''topic (string) is required in request body'' 400),
       loc = l, wld = w\<rparr>"
    using gi_invalid by blast
  show "out (generateImage E body l w) =
          NextErr (CustomError ''topic (string) is required in request body'' 400)"
    and "wld (generateImage E body l w) = w"
    and "net (wld (generateImage E body l w)) = net w"
    by (simp_all add: g)
qed

theorem missing_field_is_400_without_call_witness:
  "typeof (get (body_or_empty (JObj [(''text'', JNum 5)])) ''text'') \<noteq> ''string''
   \<and> fst (commentPost env0 (JObj [(''text'', JNum 5)]) world0)
       = NextErr (CustomError ''No text provided'' 400)
   \<and> net (snd (commentPost env0 (JObj [(''text'', JNum 5)]) world0)) = []
   \<and> get (body_or_empty (JObj [(''text'', JNum 5)])) ''topic'' = JUndefined
   \<and> out (generateImage env0 (JObj [(''text'', JNum 5)]) empty_locals world0)
       = NextErr (CustomError ''topic (string) is required in request body'' 400)
   \<and> net (wld (generateImage env0 (JObj [(''text'', JNum 5)]) empty_locals world0)) = []"
  using missing_field_is_400_without_call
    [of "JObj [(''text'', JNum 5)]" env0 world0 empty_locals]
  by (simp add: body_or_empty_def world0_def)

section \<open>Choice of the generation strategy (C3)\<close>

text \<open>
  C3. For an image request (its topic a non-empty string, as the data model has it)
  exactly one strategy runs, chosen by the configuration alone. With an API key set, the
  one outbound call is the SDK's \<^verbatim>\<open>images.generate\<close> with that key. With no key and a
  base URL set, the one outbound call is a POST of the same parameters to the base URL
  (a final slash removed) followed by \<^verbatim>\<open>/v1/images/generations\<close>. With neither, the
  handler ends in the 500 error "No OPENAI_API_KEY or OPENAI_API_URL configured" and the
  log of outbound calls is unchanged.
\<close>

theorem generation_strategy_by_configuration:
  assumes "get (body_or_empty body) ''topic'' = JStr t" and "t \<noteq> []"
  shows "(configured (OPENAI_API_KEY E) \<longrightarrow>
            net (wld (generateImage E body l w)) =
              net w @ [SdkGenerate (env_value (OPENAI_API_KEY E)) (image_payload E body)
                         (images_generate E (env_value (OPENAI_API_KEY E)) (image_payload E body))])
       \<and> (\<not> configured (OPENAI_API_KEY E) \<and> configured (OPENAI_API_URL E) \<longrightarrow>
            net (wld (generateImage E body l w)) =
              net w @ [Fetch (strip_slash (env_value (OPENAI_API_URL E)) @ ''/v1/images/generations'')
                 \<lparr>http_method = ''POST'', http_headers = headers E, http_body = image_payload E body\<rparr>
                 (fetchData E (strip_slash (env_value (OPENAI_API_URL E)) @ ''/v1/images/generations'')
                    \<lparr>http_method = ''POST'', http_headers = headers E,
                     http_body = image_payload E body\<rparr>)])
       \<and> (\<not> configured (OPENAI_API_KEY E) \<and> \<not> configured (OPENAI_API_URL E) \<longrightarrow>
            out (generateImage E body l w) =
              NextErr (CustomError ''No OPENAI_API_KEY or OPENAI_API_URL configured'' 500)
            \<and> net (wld (generateImage E body l w)) = net w)"
proof (intro conjI impI)
  assume "configured (OPENAI_API_KEY E)"
  then show "net (wld (generateImage E body l w)) =
      net w @ [SdkGenerate (env_value (OPENAI_API_KEY E)) (image_payload E body)
                 (images_generate E (env_value (OPENAI_API_KEY E)) (image_payload E body))]"
    by (simp add: gi_sdk [OF assms] item_stage_wld)
next
  assume "\<not> configured (OPENAI_API_KEY E) \<and> configured (OPENAI_API_URL E)"
  then show "net (wld (generateImage E body l w)) =
      net w @ [Fetch (strip_slash (env_value (OPENAI_API_URL E)) @ ''/v1/images/generations'')
         \<lparr>http_method = ''POST'', http_headers = headers E, http_body = image_payload E body\<rparr>
         (fetchData E (strip_slash (env_value (OPENAI_API_URL E)) @ ''/v1/images/generations'')
            \<lparr>http_method = ''POST'', http_headers = headers E,
             http_body = image_payload E body\<rparr>)]"
    by (simp add: gi_proxy [OF assms] item_stage_wld)
next
  assume n: "\<not> configured (OPENAI_API_KEY E) \<and> \<not> configured (OPENAI_API_URL E)"
  then have g: "generateImage E body l w =
     \<lparr>out = NextErr (CustomError ''No OPENAI_API_KEY or OPENAI_API_URL configured'' 500),
      loc = l, wld = w\<rparr>"
    using gi_unconfigured [OF assms] by blast
  show "out (generateImage E body l w) =
      NextErr (CustomError ''No OPENAI_API_KEY or OPENAI_API_URL configured'' 500)"
    and "net (wld (generateImage E body l w)) = net w"
    by (simp_all add: g)
qed

theorem generation_strategy_by_configuration_witness:
  "net (wld (generateImage (env0\<lparr>OPENAI_API_KEY := Some ''sk-test''\<rparr>) space_body empty_locals world0))
     = [SdkGenerate ''sk-test'' (image_payload (env0\<lparr>OPENAI_API_KEY := Some ''sk-test''\<rparr>) space_body)
          (Inr image_reply)]
   \<and> net (wld (generateImage env0 space_body empty_locals world0))
     = [Fetch ''http://localhost:3000/v1/images/generations''
          \<lparr>http_method = ''POST'', http_headers = [(''Content-Type'', ''application/json'')],
           http_body = image_payload env0 space_body\<rparr>
          (Inr image_reply)]
   \<and> out (generateImage (env0\<lparr>OPENAI_API_URL := None\<rparr>) space_body empty_locals world0)
     = NextErr (CustomError ''No OPENAI_API_KEY or OPENAI_API_URL configured'' 500)
   \<and> net (wld (generateImage (env0\<lparr>OPENAI_API_URL := None\<rparr>) space_body empty_locals world0)) = []"
proof -
  have t: "get (body_or_empty space_body) ''topic'' = JStr ''Deep Space!''"
    and n: "''Deep Space!'' \<noteq> []"
    by (simp_all add: body_or_empty_def space_body_def)
  show ?thesis
    using generation_strategy_by_configuration
            [OF t n, of "env0\<lparr>OPENAI_API_KEY := Some ''sk-test''\<rparr>" empty_locals world0]
          generation_strategy_by_configuration [OF t n, of env0 empty_locals world0]
          generation_strategy_by_configuration
            [OF t n, of "env0\<lparr>OPENAI_API_URL := None\<rparr>" empty_locals world0]
    by (simp add: env0_def world0_def configured_def env_value_def strip_slash_def headers_def)
qed

section \<open>The provider's image item (C4)\<close>

text \<open>
  C4. \<^verbatim>\<open>generateImage\<close>, run on the locals of a new response, ends in \<^verbatim>\<open>next()\<close> only
  when a provider call was made and answered, the first item of the answer's \<^verbatim>\<open>data\<close>
  exists, and the item carries a \<^verbatim>\<open>url\<close> or a \<^verbatim>\<open>b64_json\<close>; then exactly one of
  \<^verbatim>\<open>res.locals.url\<close> and \<^verbatim>\<open>res.locals.b64\<close> is set. When the provider answered with a
  first item that carries neither, the handler ends in a \<^verbatim>\<open>CustomError\<close> of status 500.
\<close>

theorem item_needs_url_or_base64:
  "(out (generateImage E body empty_locals w) = Next \<longrightarrow>
      (\<exists>c resp. net (wld (generateImage E body empty_locals w)) = net w @ [c]
         \<and> answered c resp
         \<and> truthy (opt_elem0 (opt_get resp ''data''))
         \<and> (truthy (get (opt_elem0 (opt_get resp ''data'')) ''url'')
              \<or> truthy (get (opt_elem0 (opt_get resp ''data'')) ''b64_json'')))
      \<and> ((url (loc (generateImage E body empty_locals w)) = JUndefined)
           \<noteq> (b64 (loc (generateImage E body empty_locals w)) = JUndefined)))
   \<and> (net (wld (generateImage E body empty_locals w)) = net w @ [c']
        \<and> answered c' resp'
        \<and> truthy (opt_elem0 (opt_get resp' ''data''))
        \<and> \<not> truthy (get (opt_elem0 (opt_get resp' ''data'')) ''url'')
        \<and> \<not> truthy (get (opt_elem0 (opt_get resp' ''data'')) ''b64_json'')
      \<longrightarrow> (\<exists>msg. out (generateImage E body empty_locals w) = NextErr (CustomError msg 500)))"
proof (cases rule: generateImage_cases [of E body empty_locals w])
  case invalid
  then show ?thesis by simp
next
  case unconfigured
  then show ?thesis by simp
next
  case (called c a b reply t)
  show ?thesis
  proof (intro conjI impI)
    assume nx: "out (generateImage E body empty_locals w) = Next"
    then have "out (item_stage a b empty_locals (w\<lparr>net := net w @ [c]\<rparr>) reply) = Next"
      by (simp add: called(1))
    then obtain resp where "reply = Inr resp"
      and "truthy (opt_elem0 (opt_get resp ''data''))"
      and "truthy (get (opt_elem0 (opt_get resp ''data'')) ''url'')
             \<or> truthy (get (opt_elem0 (opt_get resp ''data'')) ''b64_json'')"
      unfolding item_stage_Next by blast
    then show "\<exists>c resp. net (wld (generateImage E body empty_locals w)) = net w @ [c]
         \<and> answered c resp
         \<and> truthy (opt_elem0 (opt_get resp ''data''))
         \<and> (truthy (get (opt_elem0 (opt_get resp ''data'')) ''url'')
              \<or> truthy (get (opt_elem0 (opt_get resp ''data'')) ''b64_json''))"
      using called(2) by (intro exI [of _ c] exI [of _ resp]) (simp add: called(1) item_stage_wld)
    show "(url (loc (generateImage E body empty_locals w)) = JUndefined)
           \<noteq> (b64 (loc (generateImage E body empty_locals w)) = JUndefined)"
      using nx item_stage_one_of unfolding called(1) by blast
  next
    assume h: "net (wld (generateImage E body empty_locals w)) = net w @ [c']
        \<and> answered c' resp'
        \<and> truthy (opt_elem0 (opt_get resp' ''data''))
        \<and> \<not> truthy (get (opt_elem0 (opt_get resp' ''data'')) ''url'')
        \<and> \<not> truthy (get (opt_elem0 (opt_get resp' ''data'')) ''b64_json'')"
    then have "c' = c" by (simp add: called(1) item_stage_wld)
    with h called(2) have r: "reply = Inr resp'" by simp
    show "\<exists>msg. out (generateImage E body empty_locals w) = NextErr (CustomError msg 500)"
      using h by (simp add: called(1) r item_stage_neither)
  qed
qed

theorem item_needs_url_or_base64_witness:
  "out (generateImage env0 space_body empty_locals world0) = Next
   \<and> url (loc (generateImage env0 space_body empty_locals world0)) \<noteq> JUndefined
   \<and> b64 (loc (generateImage env0 space_body empty_locals world0)) = JUndefined
   \<and> truthy (opt_elem0 (opt_get (JObj [(''data'', JArr [JObj [(''revised_prompt'', JStr ''x'')]])]) ''data''))
   \<and> (\<exists>msg. out (generateImage
                    (env0\<lparr>fetchData := (\<lambda>u i. Inr (JObj [(''data'', JArr [JObj [(''revised_prompt'', JStr ''x'')]])]))\<rparr>)
                    space_body empty_locals world0) = NextErr (CustomError msg 500))"
proof -
  let ?resp = "JObj [(''data'', JArr [JObj [(''revised_prompt'', JStr ''x'')]])]"
  let ?E = "env0\<lparr>fetchData := (\<lambda>u i. Inr ?resp)\<rparr>"
  have t: "get (body_or_empty space_body) ''topic'' = JStr ''Deep Space!''"
    and n: "''Deep Space!'' \<noteq> []"
    by (simp_all add: body_or_empty_def space_body_def)
  have k: "\<not> configured (OPENAI_API_KEY ?E)" "configured (OPENAI_API_URL ?E)"
          "\<not> configured (OPENAI_API_KEY env0)" "configured (OPENAI_API_URL env0)"
    by (simp_all add: env0_def configured_def)
  have i: "truthy (opt_elem0 (opt_get ?resp ''data''))"
     "\<not> truthy (get (opt_elem0 (opt_get ?resp ''data'')) ''url'')"
     "\<not> truthy (get (opt_elem0 (opt_get ?resp ''data'')) ''b64_json'')"
    by (simp_all add: opt_elem0_def opt_get_def nullish_def)
  have j: "truthy (opt_elem0 (opt_get image_reply ''data''))"
     "truthy (get (opt_elem0 (opt_get image_reply ''data'')) ''url'')"
    by (simp_all add: opt_elem0_def opt_get_def nullish_def image_reply_def)
  have f: "fetchData env0 (strip_slash (env_value (OPENAI_API_URL env0)) @ ''/v1/images/generations'')
          \<lparr>http_method = ''POST'', http_headers = headers env0, http_body = image_payload env0 space_body\<rparr>
         = Inr image_reply"
    by (simp add: env0_def strip_slash_def env_value_def)
  have g0: "out (generateImage env0 space_body empty_locals world0) = Next"
    by (simp add: gi_proxy [OF t n k(3,4)] f item_stage_url [OF j])
  have g1: "net (wld (generateImage ?E space_body empty_locals world0)) =
      net world0 @ [Fetch (strip_slash (env_value (OPENAI_API_URL ?E)) @ ''/v1/images/generations'')
          \<lparr>http_method = ''POST'', http_headers = headers ?E, http_body = image_payload ?E space_body\<rparr>
          (Inr ?resp)]"
    by (simp add: gi_proxy [OF t n k(1,2)] item_stage_wld)
  from item_needs_url_or_base64 [of env0 space_body world0] g0
  have a: "(url (loc (generateImage env0 space_body empty_locals world0)) = JUndefined)
           \<noteq> (b64 (loc (generateImage env0 space_body empty_locals world0)) = JUndefined)"
    by blast
  have u: "url (loc (generateImage env0 space_body empty_locals world0)) \<noteq> JUndefined"
  proof -
    have "url (loc (generateImage env0 space_body empty_locals world0))
            = get (opt_elem0 (opt_get image_reply ''data'')) ''url''"
      by (simp add: gi_proxy [OF t n k(3,4)] f item_stage_url [OF j])
    then show ?thesis
      by (simp add: image_reply_def opt_elem0_def opt_get_def nullish_def)
  qed
  from item_needs_url_or_base64 [of ?E space_body world0
      "Fetch (strip_slash (env_value (OPENAI_API_URL ?E)) @ ''/v1/images/generations'')
          \<lparr>http_method = ''POST'', http_headers = headers ?E, http_body = image_payload ?E space_body\<rparr>
          (Inr ?resp)" ?resp] g1 i
  have b: "\<exists>msg. out (generateImage ?E space_body empty_locals world0) = NextErr (CustomError msg 500)"
    by simp
  show ?thesis using g0 a u b i(1) by simp
qed


lemma ensure_dir_keeps:
  "ensure_dir E w d = Inr w0 \<Longrightarrow> net w0 = net w \<and> files w0 = files w"
  by (auto simp add: ensure_dir_def split: if_splits option.splits)



section \<open>The comment pipeline's completion (C5, C6)\<close>

text \<open>
  C5. When \<^verbatim>\<open>commentPost\<close> has called the provider and the completion that came back
  has an empty \<^verbatim>\<open>choices\<close> array, the handler ends in
  \<^verbatim>\<open>next(CustomError('No completion choices returned', 500))\<close>; it does not end in
  \<^verbatim>\<open>res.json\<close>, so no \<^verbatim>\<open>response\<close> member is sent.
\<close>

theorem zero_choices_is_500:
  assumes "net (snd (commentPost E body w)) = net w @ [Fetch u i (Inr completion)]"
    and "get completion ''choices'' = JArr []"
  shows "fst (commentPost E body w) = NextErr (CustomError ''No completion choices returned'' 500)
       \<and> (\<forall>sent. fst (commentPost E body w) \<noteq> Json sent)"
proof -
  have "fst (commentPost E body w) = NextErr (CustomError ''No completion choices returned'' 500)"
    using assms
    by (auto simp add: commentPost_def Let_def opt_get_def nullish_def split: if_splits sum.splits)
  then show ?thesis by simp
qed

theorem zero_choices_is_500_witness:
  "net (snd (commentPost (env0\<lparr>fetchData := (\<lambda>u i. Inr (JObj [(''choices'', JArr [])]))\<rparr>)
              comment_body world0))
     = [Fetch ''http://localhost:3000/v1/chat/completions''
          \<lparr>http_method = ''POST'', http_headers = [(''Content-Type'', ''application/json'')],
           http_body = requestPayload (JStr ''gpt-4o-mini'')
             (systemMessage (\<lambda>v. ''[object Object]'') (JStr ''Responder'')
                (JStr ''helpful and friendly'') (JStr ''funny''))
             (userMessage (\<lambda>v. ''[object Object]'') (JStr ''Great video!'') (JStr ''funny''))
             (JNum (7 / 10)) (JNum 150)\<rparr>
          (Inr (JObj [(''choices'', JArr [])]))]
   \<and> get (JObj [(''choices'', JArr [])]) ''choices'' = JArr []
   \<and> fst (commentPost (env0\<lparr>fetchData := (\<lambda>u i. Inr (JObj [(''choices'', JArr [])]))\<rparr>)
              comment_body world0)
     = NextErr (CustomError ''No completion choices returned'' 500)"
proof -
  let ?E = "env0\<lparr>fetchData := (\<lambda>u i. Inr (JObj [(''choices'', JArr [])]))\<rparr>"
  have n: "net (snd (commentPost ?E comment_body world0))
     = net world0 @ [Fetch ''http://localhost:3000/v1/chat/completions''
          \<lparr>http_method = ''POST'', http_headers = [(''Content-Type'', ''application/json'')],
           http_body = requestPayload (JStr ''gpt-4o-mini'')
             (systemMessage (\<lambda>v. ''[object Object]'') (JStr ''Responder'')
                (JStr ''helpful and friendly'') (JStr ''funny''))
             (userMessage (\<lambda>v. ''[object Object]'') (JStr ''Great video!'') (JStr ''funny''))
             (JNum (7 / 10)) (JNum 150)\<rparr>
          (Inr (JObj [(''choices'', JArr [])]))]"
    by (simp add: commentPost_def Let_def env0_def comment_body_def world0_def body_or_empty_def
          dflt_def configured_def env_value_def strip_slash_def headers_def member_def nullish_def
          opt_get_def)
  have c: "get (JObj [(''choices'', JArr [])]) ''choices'' = JArr []" by simp
  from zero_choices_is_500 [OF n c] n c show ?thesis by (simp add: world0_def)
qed





section \<open>Persistence: the download (C1) and the file name (C8)\<close>

text \<open>The file name of the concrete inputs.\<close>

lemma baseName_deep_space: "baseName ''Deep Space!'' = ''deep_space_''"
  by code_simp

lemma decimal_now0: "decimal 1700000000000 = ''1700000000000''"
  by (simp add: decimal.simps)

lemma decimal_404: "decimal 404 = ''404''"
  by (simp add: decimal.simps)

text \<open>
  C1 as stated fails: \<^verbatim>\<open>saveImage\<close> rejects a response only when its status is 400 or
  above. A download answered with the redirect status 302 is not a failure: the handler
  stores the body of that response as the image and ends in \<^verbatim>\<open>next()\<close>.
\<close>

theorem redirect_status_is_not_a_failure:
  "net (wld (saveImage (env0\<lparr>https_get := (\<lambda>u. Response (Some 302) ''Found'')\<rparr>) space_body
               (empty_locals\<lparr>url := JStr ''https://cdn.example/img.png''\<rparr>) world0))
     = [HttpsGet ''https://cdn.example/img.png'' (Response (Some 302) ''Found'')]
   \<and> out (saveImage (env0\<lparr>https_get := (\<lambda>u. Response (Some 302) ''Found'')\<rparr>) space_body
               (empty_locals\<lparr>url := JStr ''https://cdn.example/img.png''\<rparr>) world0) = Next
   \<and> files (wld (saveImage (env0\<lparr>https_get := (\<lambda>u. Response (Some 302) ''Found'')\<rparr>) space_body
               (empty_locals\<lparr>url := JStr ''https://cdn.example/img.png''\<rparr>) world0))
         ''/app/uploads/deep_space__1700000000000.png'' = Some ''Found''"
  by (simp add: saveImage_def ensure_dir_def existsSync_def Let_def env0_def world0_def
        space_body_def empty_locals_def opt_get_def nullish_def to_str_def uploadsDir_def
        path_join_def imageName_def baseName_deep_space decimal_now0)

text \<open>
  C1, amended. When the download was answered with a status of 400 or above,
  \<^verbatim>\<open>saveImage\<close> ends in \<^verbatim>\<open>next(err)\<close> with the error "Failed to download image, status
  N". When the request emitted \<^verbatim>\<open>error\<close>, \<^verbatim>\<open>saveImage\<close> ends in \<^verbatim>\<open>next(err)\<close> with
  that error whether or not the unlink succeeded, and where the unlink succeeds there
  is no file at the target path afterwards.
\<close>

theorem download_error_handling:
  "(net (wld (saveImage E body l w)) = net w @ [HttpsGet u (Response (Some st) bytes)] \<and> 400 \<le> st
      \<longrightarrow> out (saveImage E body l w)
            = NextErr (Error (''Failed to download image, status '' @ decimal st)))
   \<and> (net (wld (saveImage E body l w)) = net w @ [HttpsGet u' (RequestError e)]
      \<longrightarrow> out (saveImage E body l w) = NextErr e
          \<and> (unlink_ok E \<and> opt_get body ''topic'' = JStr t \<and> t \<noteq> []
               \<longrightarrow> files (wld (saveImage E body l w)) (path_join (uploadsDir E) (imageName E t)) = None))"
proof (cases "ensure_dir E w (uploadsDir E)")
  case (Inl e0)
  then show ?thesis by (simp add: saveImage_def)
next
  case (Inr w0)
  have k: "net w0 = net w" using ensure_dir_keeps [OF Inr] by simp
  show ?thesis
    using k
    by (auto simp add: saveImage_def Inr Let_def
             split: jsval.splits if_splits option.splits download.splits)
qed

lemmas saveImage_eval =
  saveImage_def ensure_dir_def existsSync_def Let_def env0_def world0_def
  space_body_def empty_locals_def opt_get_def nullish_def to_str_def uploadsDir_def
  path_join_def imageName_def baseName_deep_space decimal_now0

theorem download_error_handling_witness:
  "net (wld (saveImage (env0\<lparr>https_get := (\<lambda>u. Response (Some 404) ''Not Found'')\<rparr>) space_body
               (empty_locals\<lparr>url := JStr ''https://cdn.example/img.png''\<rparr>) world0))
     = [HttpsGet ''https://cdn.example/img.png'' (Response (Some 404) ''Not Found'')]
   \<and> out (saveImage (env0\<lparr>https_get := (\<lambda>u. Response (Some 404) ''Not Found'')\<rparr>) space_body
               (empty_locals\<lparr>url := JStr ''https://cdn.example/img.png''\<rparr>) world0)
       = NextErr (Error ''Failed to download image, status 404'')
   \<and> net (wld (saveImage (env0\<lparr>https_get := (\<lambda>u. RequestError (Error ''ECONNRESET''))\<rparr>) space_body
               (empty_locals\<lparr>url := JStr ''https://cdn.example/img.png''\<rparr>) world0))
     = [HttpsGet ''https://cdn.example/img.png'' (RequestError (Error ''ECONNRESET''))]
   \<and> out (saveImage (env0\<lparr>https_get := (\<lambda>u. RequestError (Error ''ECONNRESET''))\<rparr>) space_body
               (empty_locals\<lparr>url := JStr ''https://cdn.example/img.png''\<rparr>) world0)
       = NextErr (Error ''ECONNRESET'')
   \<and> files (wld (saveImage (env0\<lparr>https_get := (\<lambda>u. RequestError (Error ''ECONNRESET''))\<rparr>) space_body
               (empty_locals\<lparr>url := JStr ''https://cdn.example/img.png''\<rparr>) world0))
         (path_join (uploadsDir env0) (imageName env0 ''Deep Space!'')) = None
   \<and> out (saveImage (env0\<lparr>https_get := (\<lambda>u. RequestError (Error ''ECONNRESET'')), unlink_ok := False\<rparr>)
               space_body (empty_locals\<lparr>url := JStr ''https://cdn.example/img.png''\<rparr>) world0)
       = NextErr (Error ''ECONNRESET'')"
proof -
  let ?l = "empty_locals\<lparr>url := JStr ''https://cdn.example/img.png''\<rparr>"
  let ?E1 = "env0\<lparr>https_get := (\<lambda>u. Response (Some 404) ''Not Found'')\<rparr>"
  let ?E2 = "env0\<lparr>https_get := (\<lambda>u. RequestError (Error ''ECONNRESET''))\<rparr>"
  let ?E3 = "env0\<lparr>https_get := (\<lambda>u. RequestError (Error ''ECONNRESET'')), unlink_ok := False\<rparr>"
  have n1: "net (wld (saveImage ?E1 space_body ?l world0))
      = net world0 @ [HttpsGet ''https://cdn.example/img.png'' (Response (Some 404) ''Not Found'')]"
    by (simp add: saveImage_eval)
  have n2: "net (wld (saveImage ?E2 space_body ?l world0))
      = net world0 @ [HttpsGet ''https://cdn.example/img.png'' (RequestError (Error ''ECONNRESET''))]"
    by (simp add: saveImage_eval)
  have n3: "net (wld (saveImage ?E3 space_body ?l world0))
      = net world0 @ [HttpsGet ''https://cdn.example/img.png'' (RequestError (Error ''ECONNRESET''))]"
    by (simp add: saveImage_eval)
  have u: "unlink_ok ?E2" "opt_get space_body ''topic'' = JStr ''Deep Space!''" "''Deep Space!'' \<noteq> []"
    by (simp_all add: env0_def space_body_def opt_get_def nullish_def)
  have p: "uploadsDir ?E2 = uploadsDir env0" "imageName ?E2 ''Deep Space!'' = imageName env0 ''Deep Space!''"
    by (simp_all add: uploadsDir_def imageName_def)
  have s: "(400::nat) \<le> 404" by simp
  from download_error_handling [of ?E1 space_body ?l world0 _ 404 "''Not Found''"] n1 s
  have a: "out (saveImage ?E1 space_body ?l world0)
             = NextErr (Error (''Failed to download image, status '' @ decimal 404))"
    by blast
  from download_error_handling [of ?E2 space_body ?l world0 _ _ _ _ "Error ''ECONNRESET''" "''Deep Space!''"] n2 u
  have b: "out (saveImage ?E2 space_body ?l world0) = NextErr (Error ''ECONNRESET'')"
    and c: "files (wld (saveImage ?E2 space_body ?l world0))
              (path_join (uploadsDir ?E2) (imageName ?E2 ''Deep Space!'')) = None"
    by blast+
  from download_error_handling [of ?E3 space_body ?l world0 _ _ _ _ "Error ''ECONNRESET''"] n3
  have d: "out (saveImage ?E3 space_body ?l world0) = NextErr (Error ''ECONNRESET'')"
    by blast
  show ?thesis using n1 n2 a b c d by (simp add: decimal_404 world0_def p)
qed

text \<open>
  What the amended statement leaves open: after a rejected status the file the write
  stream opened is still at the target path, empty. Only the request's \<^verbatim>\<open>error\<close>
  listener unlinks it.
\<close>

lemma rejected_status_leaves_the_file:
  "out (saveImage (env0\<lparr>https_get := (\<lambda>u. Response (Some 404) ''Not Found'')\<rparr>) space_body
               (empty_locals\<lparr>url := JStr ''https://cdn.example/img.png''\<rparr>) world0)
       = NextErr (Error ''Failed to download image, status 404'')
   \<and> files (wld (saveImage (env0\<lparr>https_get := (\<lambda>u. Response (Some 404) ''Not Found'')\<rparr>) space_body
               (empty_locals\<lparr>url := JStr ''https://cdn.example/img.png''\<rparr>) world0))
         ''/app/uploads/deep_space__1700000000000.png'' = Some []"
  by (simp add: saveImage_eval decimal_404)

text \<open>The characters of the sanitized topic.\<close>

lemma lower_token: "in_class c \<Longrightarrow>
   token_char (let n = (of_char c :: nat) in if 65 \<le> n \<and> n \<le> 90 then char_of (n + 32) else c)"
  by (auto simp add: in_class_def token_char_def Let_def)

lemma underscore_token:
  "token_char (let n = (of_char (CHR ''_'') :: nat) in if 65 \<le> n \<and> n \<le> 90 then char_of (n + 32) else CHR ''_'')"
  by (simp add: token_char_def Let_def)

lemma baseName_token: "\<forall>c \<in> set (baseName topic). token_char c"
proof
  fix c assume "c \<in> set (baseName topic)"
  then obtain d where d: "d \<in> set topic"
    and c: "c = (let n = (of_char (if in_class d then d else CHR ''_'') :: nat)
                 in if 65 \<le> n \<and> n \<le> 90 then char_of (n + 32)
                    else (if in_class d then d else CHR ''_''))"
    by (auto simp add: baseName_def toLowerCase_def replace_outside_class_def)
  show "token_char c"
  proof (cases "in_class d")
    case True
    then show ?thesis using lower_token [OF True] by (simp add: c)
  next
    case False
    then show ?thesis using underscore_token by (simp add: c)
  qed
qed

lemma baseName_length: "length (baseName topic) = length topic"
  by (simp add: baseName_def toLowerCase_def replace_outside_class_def)

lemma baseName_keeps:
  "i < length topic \<Longrightarrow> token_char (topic ! i) \<Longrightarrow> baseName topic ! i = topic ! i"
  by (auto simp add: baseName_def toLowerCase_def replace_outside_class_def token_char_def
        in_class_def Let_def)

lemma baseName_replaces:
  "i < length topic \<Longrightarrow> \<not> in_class (topic ! i) \<Longrightarrow> baseName topic ! i = CHR ''_''"
  by (simp add: baseName_def toLowerCase_def replace_outside_class_def Let_def)

lemma saveImage_success_name:
  assumes "opt_get body ''topic'' = JStr t" and "t \<noteq> []"
    and "out (saveImage E body l w) = Next"
  shows "filename (loc (saveImage E body l w)) = JStr (imageName E t)
       \<and> files (wld (saveImage E body l w)) (path_join (uploadsDir E) (imageName E t)) \<noteq> None"
  using assms
  by (auto simp add: saveImage_def Let_def split: sum.splits if_splits option.splits download.splits)

text \<open>
  C8. For a request whose topic is a non-empty string, the name under which
  \<^verbatim>\<open>saveImage\<close> stores the image (\<^verbatim>\<open>res.locals.file\<close>, and the file on disk in the uploads
  directory) is the sanitized topic, an underscore, the clock's \<^verbatim>\<open>Date.now()\<close> in
  decimal, and \<^verbatim>\<open>.png\<close>. The sanitized topic has the length of the topic and consists
  of lower-case letters, digits, dashes and underscores only; a character of the topic
  that is one of these already is kept, and one that is no letter, digit, dash or
  underscore becomes an underscore.
\<close>

theorem stored_file_name:
  assumes "opt_get body ''topic'' = JStr topic" and "topic \<noteq> []"
    and "out (saveImage E body l w) = Next"
  shows "filename (loc (saveImage E body l w))
           = JStr (baseName topic @ ''_'' @ decimal (now E) @ ''.png'')
       \<and> files (wld (saveImage E body l w))
           (uploadsDir E @ ''/'' @ baseName topic @ ''_'' @ decimal (now E) @ ''.png'') \<noteq> None
       \<and> length (baseName topic) = length topic
       \<and> (\<forall>c \<in> set (baseName topic). token_char c)
       \<and> (\<forall>i < length topic. (token_char (topic ! i) \<longrightarrow> baseName topic ! i = topic ! i)
                              \<and> (\<not> in_class (topic ! i) \<longrightarrow> baseName topic ! i = CHR ''_''))"
  using saveImage_success_name [OF assms] baseName_token [of topic] baseName_length [of topic]
    baseName_keeps [of _ topic] baseName_replaces [of _ topic]
  by (simp add: imageName_def path_join_def)

theorem stored_file_name_witness:
  "opt_get space_body ''topic'' = JStr ''Deep Space!''
   \<and> out (saveImage env0 space_body (empty_locals\<lparr>url := JStr ''https://cdn.example/img.png''\<rparr>) world0)
       = Next
   \<and> filename (loc (saveImage env0 space_body
                       (empty_locals\<lparr>url := JStr ''https://cdn.example/img.png''\<rparr>) world0))
       = JStr ''deep_space__1700000000000.png''
   \<and> files (wld (saveImage env0 space_body
                       (empty_locals\<lparr>url := JStr ''https://cdn.example/img.png''\<rparr>) world0))
         ''/app/uploads/deep_space__1700000000000.png'' \<noteq> None"
proof -
  let ?l = "empty_locals\<lparr>url := JStr ''https://cdn.example/img.png''\<rparr>"
  have t: "opt_get space_body ''topic'' = JStr ''Deep Space!''" and n: "''Deep Space!'' \<noteq> []"
    by (simp_all add: space_body_def opt_get_def nullish_def)
  have o: "out (saveImage env0 space_body ?l world0) = Next"
    by (simp add: saveImage_eval)
  have e: "now env0 = 1700000000000" "uploadsDir env0 = ''/app/uploads''"
    by (simp_all add: env0_def uploadsDir_def)
  from stored_file_name [OF t n o] t o show ?thesis
    by (simp add: baseName_deep_space decimal_now0 e)
qed

section \<open>Thumbnailing (C9)\<close>

lemma makeThumbnail_out: "out (makeThumbnail E l w) = Next"
  by (simp add: makeThumbnail_def Let_def split: jsval.splits option.splits sum.splits)

lemma makeThumbnail_keeps:
  "filename (loc (makeThumbnail E l w)) = filename l \<and> url (loc (makeThumbnail E l w)) = url l"
  by (simp add: makeThumbnail_def Let_def split: jsval.splits option.splits sum.splits)

lemma makeThumbnail_skips:
  "\<not> truthy (filename l) \<Longrightarrow> makeThumbnail E l w = \<lparr>out = Next, loc = l, wld = w\<rparr>"
  by (simp add: makeThumbnail_def Let_def)

lemma makeThumbnail_caught:
  "sharp_throws E l w \<Longrightarrow> makeThumbnail E l w = \<lparr>out = Next, loc = l, wld = w\<rparr>"
  by (auto simp add: makeThumbnail_def sharp_throws_def Let_def
        split: jsval.splits option.splits sum.splits)

lemma item_stage_thumb: "thumb (loc (item_stage a b l w1 reply)) = thumb l"
  by (simp add: item_stage_def Let_def split: sum.splits)

lemma generateImage_thumb: "thumb (loc (generateImage E body l w)) = thumb l"
  by (cases rule: generateImage_cases [of E body l w]) (simp_all add: item_stage_thumb)

lemma saveImage_thumb: "thumb (loc (saveImage E body l w)) = thumb l"
  by (simp add: saveImage_def Let_def
        split: sum.splits jsval.splits option.splits download.splits)

text \<open>
  C9. \<^verbatim>\<open>makeThumbnail\<close> always ends in \<^verbatim>\<open>next()\<close>, never in \<^verbatim>\<open>next(err)\<close>. With no file
  name in the locals it changes nothing. When reading or re-encoding the stored file
  throws, it changes nothing either. So in the route, once \<^verbatim>\<open>generateImage\<close> and
  \<^verbatim>\<open>saveImage\<close> have ended in \<^verbatim>\<open>next()\<close>, the request ends in the JSON response with the
  file and the URL they produced whatever the thumbnailing does, and when the
  re-encoding throws the \<^verbatim>\<open>thumb\<close> member of that response is \<^verbatim>\<open>undefined\<close>.
\<close>

theorem thumbnail_never_fails_the_request:
  "out (makeThumbnail E l w) = Next
   \<and> (\<not> truthy (filename l) \<longrightarrow> loc (makeThumbnail E l w) = l \<and> wld (makeThumbnail E l w) = w)
   \<and> (sharp_throws E l w \<longrightarrow> loc (makeThumbnail E l w) = l \<and> wld (makeThumbnail E l w) = w)
   \<and> (let r1 = generateImage E body empty_locals w0;
           r2 = saveImage E body (loc r1) (wld r1);
           r3 = makeThumbnail E (loc r2) (wld r2)
       in out r1 = Next \<and> out r2 = Next \<longrightarrow>
            out (imagePipeline E body w0) =
              Json (JObj [(''file'', filename (loc r2)), (''thumb'', thumb (loc r3)),
                          (''url'', url (loc r2))])
            \<and> (sharp_throws E (loc r2) (wld r2) \<longrightarrow> thumb (loc r3) = JUndefined))"
proof (intro conjI impI)
  show "out (makeThumbnail E l w) = Next" by (rule makeThumbnail_out)
next
  assume "\<not> truthy (filename l)"
  then show "loc (makeThumbnail E l w) = l" and "wld (makeThumbnail E l w) = w"
    by (simp_all add: makeThumbnail_skips)
next
  assume "sharp_throws E l w"
  then show "loc (makeThumbnail E l w) = l" and "wld (makeThumbnail E l w) = w"
    by (simp_all add: makeThumbnail_caught)
next
  show "let r1 = generateImage E body empty_locals w0;
           r2 = saveImage E body (loc r1) (wld r1);
           r3 = makeThumbnail E (loc r2) (wld r2)
       in out r1 = Next \<and> out r2 = Next \<longrightarrow>
            out (imagePipeline E body w0) =
              Json (JObj [(''file'', filename (loc r2)), (''thumb'', thumb (loc r3)),
                          (''url'', url (loc r2))])
            \<and> (sharp_throws E (loc r2) (wld r2) \<longrightarrow> thumb (loc r3) = JUndefined)"
    unfolding Let_def
  proof (intro impI conjI)
    assume s: "out (generateImage E body empty_locals w0) = Next \<and>
      out (saveImage E body (loc (generateImage E body empty_locals w0))
             (wld (generateImage E body empty_locals w0))) = Next"
    then show "out (imagePipeline E body w0) =
      Json (JObj [(''file'', filename (loc (saveImage E body (loc (generateImage E body empty_locals w0))
                                             (wld (generateImage E body empty_locals w0))))),
                  (''thumb'', thumb (loc (makeThumbnail E
                      (loc (saveImage E body (loc (generateImage E body empty_locals w0))
                              (wld (generateImage E body empty_locals w0))))
                      (wld (saveImage E body (loc (generateImage E body empty_locals w0))
                              (wld (generateImage E body empty_locals w0))))))),
                  (''url'', url (loc (saveImage E body (loc (generateImage E body empty_locals w0))
                                          (wld (generateImage E body empty_locals w0)))))])"
      by (simp add: imagePipeline_def Let_def makeThumbnail_out respondWithImage_def makeThumbnail_keeps)
    assume "sharp_throws E
       (loc (saveImage E body (loc (generateImage E body empty_locals w0))
               (wld (generateImage E body empty_locals w0))))
       (wld (saveImage E body (loc (generateImage E body empty_locals w0))
               (wld (generateImage E body empty_locals w0))))"
    then show "thumb (loc (makeThumbnail E
                      (loc (saveImage E body (loc (generateImage E body empty_locals w0))
                              (wld (generateImage E body empty_locals w0))))
                      (wld (saveImage E body (loc (generateImage E body empty_locals w0))
                              (wld (generateImage E body empty_locals w0)))))) = JUndefined"
      by (simp add: makeThumbnail_caught saveImage_thumb generateImage_thumb empty_locals_def)
  qed
qed

lemmas generateImage_eval =
  generateImage_def Let_def env0_def world0_def body_or_empty_def space_body_def dflt_def
  configured_def env_value_def strip_slash_def opt_elem0_def opt_get_def nullish_def
  image_reply_def headers_def empty_locals_def

theorem thumbnail_never_fails_the_request_witness:
  "out (makeThumbnail (env0\<lparr>resize_png := (\<lambda>bytes. Inl (Error ''unsupported image format''))\<rparr>)
          (empty_locals\<lparr>filename := JStr ''a.png''\<rparr>)
          (world0\<lparr>files := [''/app/uploads/a.png'' \<mapsto> ''PNG'']\<rparr>)) = Next
   \<and> \<not> truthy (filename empty_locals)
   \<and> loc (makeThumbnail env0 empty_locals world0) = empty_locals
   \<and> sharp_throws (env0\<lparr>resize_png := (\<lambda>bytes. Inl (Error ''unsupported image format''))\<rparr>)
          (empty_locals\<lparr>filename := JStr ''a.png''\<rparr>)
          (world0\<lparr>files := [''/app/uploads/a.png'' \<mapsto> ''PNG'']\<rparr>)
   \<and> loc (makeThumbnail (env0\<lparr>resize_png := (\<lambda>bytes. Inl (Error ''unsupported image format''))\<rparr>)
          (empty_locals\<lparr>filename := JStr ''a.png''\<rparr>)
          (world0\<lparr>files := [''/app/uploads/a.png'' \<mapsto> ''PNG'']\<rparr>))
       = empty_locals\<lparr>filename := JStr ''a.png''\<rparr>
   \<and> out (imagePipeline (env0\<lparr>resize_png := (\<lambda>bytes. Inl (Error ''unsupported image format''))\<rparr>)
            space_body world0)
       = Json (JObj [(''file'', JStr ''deep_space__1700000000000.png''), (''thumb'', JUndefined),
                     (''url'', JStr ''https://cdn.example/img.png'')])"
proof -
  let ?E = "env0\<lparr>resize_png := (\<lambda>bytes. Inl (Error ''unsupported image format''))\<rparr>"
  let ?l = "empty_locals\<lparr>filename := JStr ''a.png''\<rparr>"
  let ?w = "world0\<lparr>files := [''/app/uploads/a.png'' \<mapsto> ''PNG'']\<rparr>"
  let ?r1 = "generateImage ?E space_body empty_locals world0"
  let ?r2 = "saveImage ?E space_body (loc ?r1) (wld ?r1)"
  have f: "\<not> truthy (filename empty_locals)" by (simp add: empty_locals_def)
  have s: "sharp_throws ?E ?l ?w"
    by (simp add: sharp_throws_def env0_def uploadsDir_def path_join_def)
  have o1: "out ?r1 = Next"
    by (simp add: generateImage_eval)
  have o2: "out ?r2 = Next"
    by (simp add: generateImage_eval saveImage_eval)
  have fu: "filename (loc ?r2) = JStr ''deep_space__1700000000000.png''"
           "url (loc ?r2) = JStr ''https://cdn.example/img.png''"
    by (simp_all add: generateImage_eval saveImage_eval)
  have st: "sharp_throws ?E (loc ?r2) (wld ?r2)"
    by (simp add: sharp_throws_def generateImage_eval saveImage_eval)
  from thumbnail_never_fails_the_request [of ?E ?l ?w space_body world0] s
  have a: "out (makeThumbnail ?E ?l ?w) = Next" "loc (makeThumbnail ?E ?l ?w) = ?l"
    by blast+
  from thumbnail_never_fails_the_request [of env0 empty_locals world0 space_body world0] f
  have b: "loc (makeThumbnail env0 empty_locals world0) = empty_locals"
    by blast
  from thumbnail_never_fails_the_request [of ?E ?l ?w space_body world0] o1 o2 st
  have c: "out (imagePipeline ?E space_body world0) =
              Json (JObj [(''file'', filename (loc ?r2)), (''thumb'', JUndefined),
                          (''url'', url (loc ?r2))])"
    unfolding Let_def by simp
  show ?thesis using a b c f s by (simp only: fu simp_thms)
qed

section \<open>The image prompt (C7)\<close>

text \<open>
  C7. For a topic, an optional splash text and an optional style (all strings),
  \<^verbatim>\<open>makePrompt\<close> returns, joined by single spaces and in this order: the opener
  "YouTube thumbnail for a video about (topic).", the style followed by a full stop if
  and only if a style was given, the splash-text clause if and only if a splash text was
  given, and the two fixed clauses. Given means present and not the empty string: the
  empty string is the source's own default for an argument that was not given.
\<close>

theorem makePrompt_is_the_joined_clauses:
  "makePrompt S (JStr topic) (optional splashText) (optional style) =
     join '' ''
       ([''YouTube thumbnail for a video about '' @ topic @ ''.'']
        @ (case style of
             Some s \<Rightarrow> if s \<noteq> [] then [s @ ''.''] else []
           | None \<Rightarrow> [])
        @ (case splashText of
             Some s \<Rightarrow> if s \<noteq> []
                       then [''Include large bold splash text: '' @ dquote @ s @ dquote @ ''.'']
                       else []
           | None \<Rightarrow> [])
        @ [''High contrast, bold composition, clear central subject, readable text, vibrant colors.'',
           ''Composition suited for a 16:9 YouTube thumbnail.''])"
  by (cases style; cases splashText) (simp_all add: makePrompt_def Let_def dflt_def to_str_def)

theorem makePrompt_is_the_joined_clauses_witness:
  "makePrompt (\<lambda>v. []) (JStr ''space'') (optional (Some ''Explore!'')) (optional None) =
     ''YouTube thumbnail for a video about space. Include large bold splash text: '' @ dquote @
     ''Explore!'' @ dquote @
     ''. High contrast, bold composition, clear central subject, readable text, vibrant colors. Composition suited for a 16:9 YouTube thumbnail.''
   \<and> makePrompt (\<lambda>v. []) (JStr ''space'') (optional None) (optional (Some ''cinematic'')) =
     ''YouTube thumbnail for a video about space. cinematic. High contrast, bold composition, clear central subject, readable text, vibrant colors. Composition suited for a 16:9 YouTube thumbnail.''
   \<and> makePrompt (\<lambda>v. []) (JStr ''space'') (optional None) (optional None) =
     ''YouTube thumbnail for a video about space. High contrast, bold composition, clear central subject, readable text, vibrant colors. Composition suited for a 16:9 YouTube thumbnail.''"
  using makePrompt_is_the_joined_clauses [of "\<lambda>v. []" "''space''" "Some ''Explore!''" None]
        makePrompt_is_the_joined_clauses [of "\<lambda>v. []" "''space''" None "Some ''cinematic''"]
        makePrompt_is_the_joined_clauses [of "\<lambda>v. []" "''space''" None None]
  by (simp add: dquote_def)

section \<open>An item with both a URL and base64 (C10)\<close>




end
